theory Spec2Isabelle
  imports Complex_Main "HOL-Library.Option_ord" "HOL-Library.Char_ord" "HOL-Library.List_Lexorder"
begin

section \<open>The persisted schema (server.ts, lines 9-30)\<close>

text \<open>
  The program is four SQL statements run against one SQLite database, so the embedding
  is the meaning of those statements on the two tables. A table is the list of its rows
  in rowid order, the order in which a full scan meets them. A column that the schema
  leaves nullable is an \<open>option\<close>; a \<open>NOT NULL\<close> column is not. The \<open>id\<close> columns are
  \<open>TEXT PRIMARY KEY\<close> of an ordinary rowid table, where SQLite admits NULL, so they are
  options too. \<open>CURRENT_TIMESTAMP\<close> is read from the clock, which the model takes as an
  argument (seconds, the resolution SQLite stores).

  JSON bodies are modelled at the types of \<open>src/types.ts\<close>: a text column receives a
  string or nothing (\<open>undefined\<close> and \<open>null\<close> both bind NULL), a coordinate a number or
  nothing. Numbers are real numbers: rounding of IEEE doubles is not modelled.
\<close>

record user_row =
  u_id :: "string option"
  u_name :: string
  u_role :: string
  u_lat :: "real option"
  u_lng :: "real option"
  u_last_active :: nat

record post_row =
  p_id :: "string option"
  p_user_id :: string
  p_title :: string
  p_description :: "string option"
  p_category :: "string option"
  p_lat :: real
  p_lng :: real
  p_created_at :: nat

record store =
  users :: "user_row list"
  posts :: "post_row list"

definition empty_store :: store where
  "empty_store = \<lparr>users = [], posts = []\<rparr>"

text \<open>The constraint violations SQLite reports; better-sqlite3 throws them from \<open>stmt.run\<close>.\<close>

datatype sqlite_error =
    CONSTRAINT_NOTNULL
  | CONSTRAINT_CHECK
  | CONSTRAINT_PRIMARYKEY
  | CONSTRAINT_FOREIGNKEY

text \<open>
  What a write handler answers: \<open>res.json({ success: true })\<close>, or the exception of
  \<open>stmt.run\<close> leaves the handler before the response is written.
\<close>

datatype response = Success | Thrown sqlite_error

section \<open>POST /api/users (server.ts, lines 39-44)\<close>

record user_req =
  req_id :: "string option"
  req_name :: "string option"
  req_role :: "string option"
  req_lat :: "real option"
  req_lng :: "real option"

text \<open>
  \<open>INSERT OR REPLACE INTO users (id, name, role, lat, lng, last_active)
     VALUES (?, ?, ?, ?, ?, CURRENT_TIMESTAMP)\<close>.
  The \<open>NOT NULL\<close> columns are checked first (no default exists, so \<open>REPLACE\<close> aborts),
  then the \<open>CHECK\<close> on \<open>role\<close>; then the row whose primary key equals the new one, if
  any, is deleted and the new row is stored under a fresh rowid. A NULL key equals no key.
\<close>

definition insert_or_replace_users :: "store \<Rightarrow> nat \<Rightarrow> user_req \<Rightarrow> sqlite_error + store" where
  "insert_or_replace_users db now r =
     (case req_name r of
        None \<Rightarrow> Inl CONSTRAINT_NOTNULL
      | Some name \<Rightarrow>
        (case req_role r of
           None \<Rightarrow> Inl CONSTRAINT_NOTNULL
         | Some role \<Rightarrow>
           if role \<noteq> ''worker'' \<and> role \<noteq> ''employer'' then Inl CONSTRAINT_CHECK
           else Inr (db\<lparr>users :=
                  filter (\<lambda>u. req_id r = None \<or> u_id u \<noteq> req_id r) (users db) @
                  [\<lparr>u_id = req_id r, u_name = name, u_role = role,
                    u_lat = req_lat r, u_lng = req_lng r, u_last_active = now\<rparr>]\<rparr>)))"

definition post_api_users :: "store \<Rightarrow> nat \<Rightarrow> user_req \<Rightarrow> response \<times> store" where
  "post_api_users db now r =
     (case insert_or_replace_users db now r of
        Inl e \<Rightarrow> (Thrown e, db)
      | Inr db' \<Rightarrow> (Success, db'))"

section \<open>POST /api/posts (server.ts, lines 46-51)\<close>

record post_req =
  preq_id :: "string option"
  preq_userId :: "string option"
  preq_title :: "string option"
  preq_description :: "string option"
  preq_category :: "string option"
  preq_lat :: "real option"
  preq_lng :: "real option"

text \<open>
  \<open>INSERT INTO posts (id, user_id, title, description, category, lat, lng)
     VALUES (?, ?, ?, ?, ?, ?, ?)\<close>; \<open>created_at\<close> takes its default, the clock.
  The \<open>NOT NULL\<close> columns are checked first, then the primary key, and the foreign key
  when the statement ends. Whether SQLite enforces foreign keys is a setting of the
  database connection that server.ts does not touch: it is the parameter \<open>fk\<close>.
  better-sqlite3 opens its connections with foreign keys enforced, so the program runs
  with \<open>fk = True\<close>; every concrete run below is taken with \<open>True\<close>, and the general
  theorems hold for either value.
\<close>

definition insert_posts :: "bool \<Rightarrow> store \<Rightarrow> nat \<Rightarrow> post_req \<Rightarrow> sqlite_error + store" where
  "insert_posts fk db now r =
     (case (preq_userId r, preq_title r, preq_lat r, preq_lng r) of
        (Some uid, Some title, Some lat, Some lng) \<Rightarrow>
          if preq_id r \<noteq> None \<and> preq_id r \<in> set (map p_id (posts db))
            then Inl CONSTRAINT_PRIMARYKEY
          else if fk \<and> Some uid \<notin> set (map u_id (users db))
            then Inl CONSTRAINT_FOREIGNKEY
          else Inr (db\<lparr>posts := posts db @
                 [\<lparr>p_id = preq_id r, p_user_id = uid, p_title = title,
                   p_description = preq_description r, p_category = preq_category r,
                   p_lat = lat, p_lng = lng, p_created_at = now\<rparr>]\<rparr>)
      | _ \<Rightarrow> Inl CONSTRAINT_NOTNULL)"

definition post_api_posts :: "bool \<Rightarrow> store \<Rightarrow> nat \<Rightarrow> post_req \<Rightarrow> response \<times> store" where
  "post_api_posts fk db now r =
     (case insert_posts fk db now r of
        Inl e \<Rightarrow> (Thrown e, db)
      | Inr db' \<Rightarrow> (Success, db'))"

section \<open>The distance expression and the comparison with the radius\<close>

text \<open>
  \<open>6371 * acos(cos(radians(?1)) * cos(radians(lat)) * cos(radians(lng) - radians(?2))
          + sin(radians(?3)) * sin(radians(lat)))\<close>
  with \<open>?1 = ?3 = userLat\<close> and \<open>?2 = userLng\<close>. A NULL operand makes the expression
  NULL; \<open>parseFloat\<close> yields a number or NaN, and a NaN is bound as NULL. SQLite's
  \<open>acos\<close> is NULL outside \<open>[-1, 1]\<close>.

  The numbers here are exact reals, and SQLite computes in IEEE doubles. The two differ
  where rounding carries the argument of \<open>acos\<close> above 1: with the origin and the row
  both at latitude 8 and longitude 0 the doubles give \<open>1.0000000000000002\<close>, the distance
  is NULL and the row is dropped, where the exact value is 0. No theorem below rests on
  the value of the expression at such a point: the concrete inputs have all coordinates 0,
  where the doubles are exact, or lie a quarter of the equator apart, thousands of
  kilometres from any radius used.
\<close>

definition radians :: "real \<Rightarrow> real" where
  "radians d = d * pi / 180"

definition sql_acos :: "real \<Rightarrow> real option" where
  "sql_acos x = (if - 1 \<le> x \<and> x \<le> 1 then Some (arccos x) else None)"

definition distance_expr ::
  "real option \<Rightarrow> real option \<Rightarrow> real option \<Rightarrow> real option \<Rightarrow> real option" where
  "distance_expr userLat userLng lat lng =
     (case (userLat, userLng, lat, lng) of
        (Some ulat, Some ulng, Some rlat, Some rlng) \<Rightarrow>
          map_option (\<lambda>a. 6371 * a)
            (sql_acos (cos (radians ulat) * cos (radians rlat) * cos (radians rlng - radians ulng)
                       + sin (radians ulat) * sin (radians rlat)))
      | _ \<Rightarrow> None)"

text \<open>
  A bound parameter is a value with its storage class. \<open>const { lat, lng, radius = 50 }
  = req.query\<close>: the radius is the number 50 when the query string has none, and
  otherwise the string of the query string as it stands (\<open>lat\<close> and \<open>lng\<close> go through
  \<open>parseFloat\<close>, \<open>radius\<close> does not), which is bound as TEXT.
\<close>

datatype sqlval = Null | Num real | Text string

definition bind_radius :: "string option \<Rightarrow> sqlval" where
  "bind_radius radius = (case radius of None \<Rightarrow> Num 50 | Some s \<Rightarrow> Text s)"

text \<open>
  \<open>distance < ?4\<close>. Neither operand is a column, so no affinity is applied and the
  values are compared as they are: NULL on either side gives NULL, two numbers compare
  numerically, and a number is less than any TEXT value. The result is three-valued;
  \<open>None\<close> is NULL.
\<close>

fun sql_lt :: "real option \<Rightarrow> sqlval \<Rightarrow> bool option" where
  "sql_lt None v = None"
| "sql_lt (Some d) Null = None"
| "sql_lt (Some d) (Num r) = Some (d < r)"
| "sql_lt (Some d) (Text s) = Some True"

section \<open>GET /api/workers/nearby (server.ts, lines 73-88)\<close>

record worker_result = user_row +
  w_distance :: "real option"

text \<open>\<open>SELECT *, (...) AS distance FROM users\<close>: every column of the row and the distance.\<close>

definition select_worker :: "real option \<Rightarrow> real option \<Rightarrow> user_row \<Rightarrow> worker_result" where
  "select_worker userLat userLng u =
     \<lparr>u_id = u_id u, u_name = u_name u, u_role = u_role u, u_lat = u_lat u, u_lng = u_lng u,
      u_last_active = u_last_active u,
      w_distance = distance_expr userLat userLng (u_lat u) (u_lng u)\<rparr>"

text \<open>
  \<open>WHERE role = 'worker' AND distance < ? ORDER BY distance ASC\<close>. A row is kept when
  the condition is true (not when it is NULL). The statement orders by nothing but the
  distance; rows of equal distance are modelled in scan order (a stable sort).
\<close>

definition get_api_workers_nearby ::
  "store \<Rightarrow> real option \<Rightarrow> real option \<Rightarrow> string option \<Rightarrow> worker_result list" where
  "get_api_workers_nearby db userLat userLng radius =
     sort_key w_distance
       (filter (\<lambda>r. u_role r = ''worker'' \<and> sql_lt (w_distance r) (bind_radius radius) = Some True)
          (map (select_worker userLat userLng) (users db)))"

section \<open>GET /api/posts/nearby (server.ts, lines 53-71)\<close>

record post_result = post_row +
  user_name :: string
  pr_distance :: "real option"

text \<open>
  \<open>FROM posts p JOIN users u ON p.user_id = u.id\<close>: an inner join, one row for every
  pair of a post and a user whose id equals the post's \<open>user_id\<close>.
\<close>

definition posts_join_users :: "store \<Rightarrow> (post_row \<times> user_row) list" where
  "posts_join_users db =
     concat (map (\<lambda>p. map (Pair p) (filter (\<lambda>u. u_id u = Some (p_user_id p)) (users db)))
               (posts db))"

text \<open>\<open>SELECT p.*, u.name as user_name, (...) AS distance\<close>.\<close>

definition select_post :: "real option \<Rightarrow> real option \<Rightarrow> post_row \<times> user_row \<Rightarrow> post_result" where
  "select_post userLat userLng pu =
     (case pu of (p, u) \<Rightarrow>
        \<lparr>p_id = p_id p, p_user_id = p_user_id p, p_title = p_title p,
         p_description = p_description p, p_category = p_category p,
         p_lat = p_lat p, p_lng = p_lng p, p_created_at = p_created_at p,
         user_name = u_name u,
         pr_distance = distance_expr userLat userLng (Some (p_lat p)) (Some (p_lng p))\<rparr>)"

definition get_api_posts_nearby ::
  "store \<Rightarrow> real option \<Rightarrow> real option \<Rightarrow> string option \<Rightarrow> post_result list" where
  "get_api_posts_nearby db userLat userLng radius =
     sort_key pr_distance
       (filter (\<lambda>r. sql_lt (pr_distance r) (bind_radius radius) = Some True)
          (map (select_post userLat userLng) (posts_join_users db)))"

section \<open>Runs of the server\<close>

text \<open>
  Only the two POST handlers write to the database. A run is the list of the write
  requests served so far, each with the clock reading at which its statement ran; the
  database file starts empty (\<open>CREATE TABLE IF NOT EXISTS\<close>).
\<close>

datatype request = POST_users nat user_req | POST_posts nat post_req

fun handle :: "bool \<Rightarrow> store \<Rightarrow> request \<Rightarrow> store" where
  "handle fk db (POST_users now r) = snd (post_api_users db now r)"
| "handle fk db (POST_posts now r) = snd (post_api_posts fk db now r)"

definition run :: "bool \<Rightarrow> request list \<Rightarrow> store" where
  "run fk rs = foldl (handle fk) empty_store rs"

section \<open>Request bodies and stores used as concrete inputs\<close>

definition worker_body :: "string \<Rightarrow> real option \<Rightarrow> real option \<Rightarrow> user_req" where
  "worker_body i la lo =
     \<lparr>req_id = Some i, req_name = Some ''Ann'', req_role = Some ''worker'',
      req_lat = la, req_lng = lo\<rparr>"

definition listing_body :: "string \<Rightarrow> string \<Rightarrow> real \<Rightarrow> real \<Rightarrow> post_req" where
  "listing_body i uid la lo =
     \<lparr>preq_id = Some i, preq_userId = Some uid, preq_title = Some ''Painting'',
      preq_description = None, preq_category = Some ''General'',
      preq_lat = Some la, preq_lng = Some lo\<rparr>"

text \<open>One worker a quarter of the way round the equator from \<open>(0, 0)\<close>, and a listing of theirs.\<close>

definition store_far :: store where
  "store_far = run True [POST_users 0 (worker_body ''f'' (Some 0) (Some 90)),
                          POST_posts 1 (listing_body ''p'' ''f'' 0 90)]"

text \<open>Two workers at \<open>(0, 0)\<close>, the one with the greater id stored first, and one without a location.\<close>

definition store_ties :: store where
  "store_ties = run True [POST_users 0 (worker_body ''b'' (Some 0) (Some 0)),
                           POST_users 1 (worker_body ''a'' (Some 0) (Some 0)),
                           POST_users 2 (worker_body ''n'' None None)]"

text \<open>
  A listing whose \<open>user_id\<close> is the id of no participant, as a row planted in the table:
  with foreign keys enforced no run of the server stores such a row.
\<close>

definition store_dangling :: store where
  "store_dangling =
     \<lparr>users = [],
      posts = [\<lparr>p_id = Some ''p'', p_user_id = ''ghost'', p_title = ''Painting'',
                p_description = None, p_category = Some ''General'',
                p_lat = 0, p_lng = 0, p_created_at = 0\<rparr>]\<rparr>"

section \<open>Facts about the distance expression\<close>

lemma radians_0: "radians 0 = 0"
  by (simp add: radians_def)

lemma radians_90: "radians 90 = pi / 2"
  by (simp add: radians_def)

lemma distance_expr_origin: "distance_expr (Some 0) (Some 0) (Some 0) (Some 0) = Some 0"
  by (simp add: distance_expr_def sql_acos_def radians_0)

lemma distance_expr_quarter: "distance_expr (Some 0) (Some 0) (Some 0) (Some 90) = Some (6371 * (pi / 2))"
  by (simp add: distance_expr_def sql_acos_def radians_0 radians_90 arccos_0)

lemma sql_acos_above_one: "1 < x \<Longrightarrow> sql_acos x = None"
  by (simp add: sql_acos_def)

section \<open>What the two SELECT statements return\<close>

lemma sql_lt_True_Some: "sql_lt d v = Some True \<Longrightarrow> d \<noteq> None"
  by (cases d) simp_all

lemma sql_lt_default_radius:
  "sql_lt d (bind_radius None) = Some True \<longleftrightarrow> (\<exists>x. d = Some x \<and> x < 50)"
  by (cases d) (simp_all add: bind_radius_def)

lemma sql_lt_supplied_radius:
  "sql_lt d (bind_radius (Some s)) = Some True \<longleftrightarrow> d \<noteq> None"
  by (cases d) (simp_all add: bind_radius_def)

lemma distance_expr_Some:
  "distance_expr a b c d \<noteq> None \<Longrightarrow> a \<noteq> None \<and> b \<noteq> None \<and> c \<noteq> None \<and> d \<noteq> None"
  by (auto simp: distance_expr_def split: option.splits)

lemma select_worker_fields:
  "u_id (select_worker a b u) = u_id u"
  "u_name (select_worker a b u) = u_name u"
  "u_role (select_worker a b u) = u_role u"
  "u_lat (select_worker a b u) = u_lat u"
  "u_lng (select_worker a b u) = u_lng u"
  "u_last_active (select_worker a b u) = u_last_active u"
  "w_distance (select_worker a b u) = distance_expr a b (u_lat u) (u_lng u)"
  by (simp_all add: select_worker_def)

lemma select_post_fields:
  "user_name (select_post a b (p, u)) = u_name u"
  "pr_distance (select_post a b (p, u)) = distance_expr a b (Some (p_lat p)) (Some (p_lng p))"
  by (simp_all add: select_post_def)

lemma truncate_select_worker: "user_row.truncate (select_worker a b u) = u"
  by (simp add: select_worker_def user_row.truncate_def)

lemma truncate_select_post: "post_row.truncate (select_post a b (p, u)) = p"
  by (simp add: select_post_def post_row.truncate_def)

lemma set_workers_nearby:
  "set (get_api_workers_nearby db userLat userLng radius) =
     select_worker userLat userLng `
       {u \<in> set (users db). u_role u = ''worker'' \<and>
          sql_lt (distance_expr userLat userLng (u_lat u) (u_lng u)) (bind_radius radius) = Some True}"
  by (auto simp: get_api_workers_nearby_def select_worker_fields)

lemma set_posts_join_users:
  "set (posts_join_users db) =
     {(p, u). p \<in> set (posts db) \<and> u \<in> set (users db) \<and> u_id u = Some (p_user_id p)}"
  by (auto simp: posts_join_users_def)

lemma set_posts_nearby:
  "set (get_api_posts_nearby db userLat userLng radius) =
     select_post userLat userLng `
       {(p, u). p \<in> set (posts db) \<and> u \<in> set (users db) \<and> u_id u = Some (p_user_id p) \<and>
          sql_lt (distance_expr userLat userLng (Some (p_lat p)) (Some (p_lng p)))
            (bind_radius radius) = Some True}"
  by (auto simp: get_api_posts_nearby_def set_posts_join_users select_post_fields)

text \<open>
  With the default radius the filter is the numeric comparison with 50; with a radius
  taken from the query string every row with a distance passes.
\<close>

lemma workers_nearby_default_radius:
  "set (get_api_workers_nearby db userLat userLng None) =
     select_worker userLat userLng `
       {u \<in> set (users db). u_role u = ''worker'' \<and>
          (\<exists>x. distance_expr userLat userLng (u_lat u) (u_lng u) = Some x \<and> x < 50)}"
  by (simp add: set_workers_nearby sql_lt_default_radius)

lemma posts_nearby_default_radius:
  "set (get_api_posts_nearby db userLat userLng None) =
     select_post userLat userLng `
       {(p, u). p \<in> set (posts db) \<and> u \<in> set (users db) \<and> u_id u = Some (p_user_id p) \<and>
          (\<exists>x. distance_expr userLat userLng (Some (p_lat p)) (Some (p_lng p)) = Some x \<and> x < 50)}"
  by (simp add: set_posts_nearby sql_lt_default_radius)

lemma workers_nearby_supplied_radius:
  "set (get_api_workers_nearby db userLat userLng (Some s)) =
     select_worker userLat userLng `
       {u \<in> set (users db). u_role u = ''worker'' \<and>
          distance_expr userLat userLng (u_lat u) (u_lng u) \<noteq> None}"
  by (simp add: set_workers_nearby sql_lt_supplied_radius)

lemma posts_nearby_supplied_radius:
  "set (get_api_posts_nearby db userLat userLng (Some s)) =
     select_post userLat userLng `
       {(p, u). p \<in> set (posts db) \<and> u \<in> set (users db) \<and> u_id u = Some (p_user_id p) \<and>
          distance_expr userLat userLng (Some (p_lat p)) (Some (p_lng p)) \<noteq> None}"
  by (simp add: set_posts_nearby sql_lt_supplied_radius)

section \<open>The concrete stores, row by row\<close>

lemma store_far_rows:
  "users store_far = [\<lparr>u_id = Some ''f'', u_name = ''Ann'', u_role = ''worker'',
                       u_lat = Some 0, u_lng = Some 90, u_last_active = 0\<rparr>]"
  "posts store_far = [\<lparr>p_id = Some ''p'', p_user_id = ''f'', p_title = ''Painting'',
                       p_description = None, p_category = Some ''General'',
                       p_lat = 0, p_lng = 90, p_created_at = 1\<rparr>]"
  by (simp_all add: store_far_def run_def empty_store_def post_api_users_def post_api_posts_def
        insert_or_replace_users_def insert_posts_def worker_body_def listing_body_def)

lemma store_ties_rows:
  "users store_ties =
     [\<lparr>u_id = Some ''b'', u_name = ''Ann'', u_role = ''worker'',
       u_lat = Some 0, u_lng = Some 0, u_last_active = 0\<rparr>,
      \<lparr>u_id = Some ''a'', u_name = ''Ann'', u_role = ''worker'',
       u_lat = Some 0, u_lng = Some 0, u_last_active = 1\<rparr>,
      \<lparr>u_id = Some ''n'', u_name = ''Ann'', u_role = ''worker'',
       u_lat = None, u_lng = None, u_last_active = 2\<rparr>]"
  by (simp add: store_ties_def run_def empty_store_def post_api_users_def
        insert_or_replace_users_def worker_body_def)

lemma distance_expr_no_location: "distance_expr a b None None = None"
  by (simp add: distance_expr_def split: option.splits)

lemma workers_nearby_store_far_supplied:
  "get_api_workers_nearby store_far (Some 0) (Some 0) (Some ''10'') =
     [\<lparr>u_id = Some ''f'', u_name = ''Ann'', u_role = ''worker'',
       u_lat = Some 0, u_lng = Some 90, u_last_active = 0,
       w_distance = Some (6371 * (pi / 2))\<rparr>]"
  by (simp add: get_api_workers_nearby_def store_far_rows select_worker_def bind_radius_def
        distance_expr_quarter)

lemma workers_nearby_store_far_default:
  "get_api_workers_nearby store_far (Some 0) (Some 0) None = []"
proof -
  have "\<not> 6371 * (pi / 2) < (50::real)" using pi_ge_two by simp
  then show ?thesis
    by (simp add: get_api_workers_nearby_def store_far_rows select_worker_def bind_radius_def
          distance_expr_quarter)
qed

lemma posts_nearby_store_far_supplied:
  "get_api_posts_nearby store_far (Some 0) (Some 0) (Some ''10'') =
     [\<lparr>p_id = Some ''p'', p_user_id = ''f'', p_title = ''Painting'',
       p_description = None, p_category = Some ''General'',
       p_lat = 0, p_lng = 90, p_created_at = 1,
       user_name = ''Ann'', pr_distance = Some (6371 * (pi / 2))\<rparr>]"
  by (simp add: get_api_posts_nearby_def posts_join_users_def store_far_rows select_post_def
        bind_radius_def distance_expr_quarter)

lemma posts_nearby_store_far_default:
  "get_api_posts_nearby store_far (Some 0) (Some 0) None = []"
proof -
  have "\<not> 6371 * (pi / 2) < (50::real)" using pi_ge_two by simp
  then show ?thesis
    by (simp add: get_api_posts_nearby_def posts_join_users_def store_far_rows select_post_def
          bind_radius_def distance_expr_quarter)
qed

lemma workers_nearby_store_ties:
  "get_api_workers_nearby store_ties (Some 0) (Some 0) None =
     [\<lparr>u_id = Some ''b'', u_name = ''Ann'', u_role = ''worker'',
       u_lat = Some 0, u_lng = Some 0, u_last_active = 0, w_distance = Some 0\<rparr>,
      \<lparr>u_id = Some ''a'', u_name = ''Ann'', u_role = ''worker'',
       u_lat = Some 0, u_lng = Some 0, u_last_active = 1, w_distance = Some 0\<rparr>]"
  by (simp add: get_api_workers_nearby_def store_ties_rows select_worker_def bind_radius_def
        distance_expr_origin distance_expr_no_location)

section \<open>The two write statements\<close>

lemma insert_posts_Inr:
  assumes "insert_posts fk db now r = Inr db'"
  shows "\<exists>uid title lat lng.
           preq_userId r = Some uid \<and> preq_title r = Some title \<and>
           preq_lat r = Some lat \<and> preq_lng r = Some lng \<and>
           (preq_id r = None \<or> preq_id r \<notin> set (map p_id (posts db))) \<and>
           db' = db\<lparr>posts := posts db @
                 [\<lparr>p_id = preq_id r, p_user_id = uid, p_title = title,
                   p_description = preq_description r, p_category = preq_category r,
                   p_lat = lat, p_lng = lng, p_created_at = now\<rparr>]\<rparr>"
  using assms by (auto simp: insert_posts_def split: option.splits if_splits)


lemma insert_or_replace_users_Inr:
  assumes "insert_or_replace_users db now r = Inr db'"
  shows "\<exists>name role.
           req_name r = Some name \<and> req_role r = Some role \<and>
           users db' = filter (\<lambda>u. req_id r = None \<or> u_id u \<noteq> req_id r) (users db) @
                  [\<lparr>u_id = req_id r, u_name = name, u_role = role,
                    u_lat = req_lat r, u_lng = req_lng r, u_last_active = now\<rparr>]"
  using assms by (auto simp: insert_or_replace_users_def split: option.splits if_splits)

lemma post_api_users_Success:
  "post_api_users db now r = (Success, db') \<Longrightarrow> insert_or_replace_users db now r = Inr db'"
  by (auto simp: post_api_users_def split: sum.splits)


lemma filter_id_after_replace:
  "filter (\<lambda>u. u_id u = Some i) (filter (\<lambda>u. u_id u \<noteq> Some i) us) = []"
  by (induction us) simp_all

lemma length_filter_filter_le:
  "length (filter P (filter Q us)) \<le> length (filter P us)"
  by (induction us) simp_all

lemma upsert_keeps_ids_unique:
  assumes inv: "\<forall>i. length (filter (\<lambda>u. u_id u = Some i) (users db)) \<le> 1"
  shows "length (filter (\<lambda>u. u_id u = Some i) (users (snd (post_api_users db now r)))) \<le> 1"
proof (cases "insert_or_replace_users db now r")
  case (Inl e)
  then show ?thesis using inv by (simp add: post_api_users_def)
next
  case (Inr db')
  from insert_or_replace_users_Inr [OF Inr] obtain name role where
    us: "users db' = filter (\<lambda>u. req_id r = None \<or> u_id u \<noteq> req_id r) (users db) @
           [\<lparr>u_id = req_id r, u_name = name, u_role = role,
             u_lat = req_lat r, u_lng = req_lng r, u_last_active = now\<rparr>]"
    by blast
  have le: "length (filter (\<lambda>u. u_id u = Some i)
              (filter (\<lambda>u. req_id r = None \<or> u_id u \<noteq> req_id r) (users db))) \<le> 1"
    using length_filter_filter_le [of "\<lambda>u. u_id u = Some i" _ "users db"] inv
    by (meson order_trans)
  show ?thesis
  proof (cases "req_id r = Some i")
    case True
    then show ?thesis using Inr us by (simp add: post_api_users_def filter_id_after_replace)
  next
    case False
    then show ?thesis using Inr us le by (simp add: post_api_users_def)
  qed
qed

lemma post_api_posts_users: "users (snd (post_api_posts fk db now r)) = users db"
proof (cases "insert_posts fk db now r")
  case (Inl e)
  then show ?thesis by (simp add: post_api_posts_def)
next
  case (Inr db')
  from insert_posts_Inr [OF Inr] show ?thesis using Inr by (auto simp: post_api_posts_def)
qed

lemma run_snoc: "run fk (rs @ [x]) = handle fk (run fk rs) x"
  by (simp add: run_def)

lemma run_ids_unique:
  "length (filter (\<lambda>u. u_id u = Some i) (users (run fk rs))) \<le> 1"
proof (induction rs arbitrary: i rule: rev_induct)
  case Nil
  show ?case by (simp add: run_def empty_store_def)
next
  case (snoc x rs)
  show ?case
  proof (cases x)
    case (POST_users now r)
    then show ?thesis using upsert_keeps_ids_unique [of "run fk rs" i now r] snoc.IH
      by (simp add: run_snoc)
  next
    case (POST_posts now r)
    then show ?thesis using snoc.IH by (simp add: run_snoc post_api_posts_users)
  qed
qed

lemma post_api_users_posts: "posts (snd (post_api_users db now r)) = posts db"
  by (cases "req_name r"; cases "req_role r")
     (simp_all add: post_api_users_def insert_or_replace_users_def)

lemma upsert_frame:
  assumes "insert_or_replace_users db now r = Inr db'" and "req_id r = Some i"
  shows "filter (\<lambda>u. u_id u \<noteq> Some i) (users db') = filter (\<lambda>u. u_id u \<noteq> Some i) (users db)"
    and "posts db' = posts db"
  using assms by (auto simp: insert_or_replace_users_def split: option.splits if_splits)

lemma upsert_keeps_ids:
  assumes "Some j \<in> set (map u_id (users db))"
  shows "Some j \<in> set (map u_id (users (snd (post_api_users db now r))))"
proof (cases "insert_or_replace_users db now r")
  case (Inl e)
  then show ?thesis using assms by (simp add: post_api_users_def)
next
  case (Inr db')
  from insert_or_replace_users_Inr [OF Inr] obtain name role where
    us: "users db' = filter (\<lambda>u. req_id r = None \<or> u_id u \<noteq> req_id r) (users db) @
           [\<lparr>u_id = req_id r, u_name = name, u_role = role,
             u_lat = req_lat r, u_lng = req_lng r, u_last_active = now\<rparr>]"
    by blast
  from assms obtain u where u: "u \<in> set (users db)" "u_id u = Some j" by auto
  show ?thesis
  proof (cases "req_id r = Some j")
    case True
    then show ?thesis using Inr us by (simp add: post_api_users_def)
  next
    case False
    with u have "u \<in> set (filter (\<lambda>u. req_id r = None \<or> u_id u \<noteq> req_id r) (users db))"
      by auto
    with u(2) have "Some j \<in> u_id ` set (users db')" unfolding us by force
    then show ?thesis using Inr by (simp add: post_api_users_def)
  qed
qed

text \<open>With foreign keys enforced every stored listing has its owner among the participants.\<close>

lemma run_fk_no_dangling:
  "p \<in> set (posts (run True rs)) \<Longrightarrow> Some (p_user_id p) \<in> set (map u_id (users (run True rs)))"
proof (induction rs arbitrary: p rule: rev_induct)
  case Nil
  then show ?case by (simp add: run_def empty_store_def)
next
  case (snoc x rs)
  show ?case
  proof (cases x)
    case (POST_users now r)
    with snoc.prems have "p \<in> set (posts (run True rs))"
      by (simp add: run_snoc post_api_users_posts)
    then have "Some (p_user_id p) \<in> set (map u_id (users (run True rs)))" by (rule snoc.IH)
    then show ?thesis using POST_users upsert_keeps_ids [of "p_user_id p" "run True rs" now r]
      by (simp add: run_snoc)
  next
    case (POST_posts now r)
    show ?thesis
    proof (cases "insert_posts True (run True rs) now r")
      case (Inl e)
      then have "run True (rs @ [x]) = run True rs"
        using POST_posts by (simp add: run_snoc post_api_posts_def)
      then show ?thesis using snoc by simp
    next
      case (Inr db')
      then have eq: "run True (rs @ [x]) = db'"
        using POST_posts by (simp add: run_snoc post_api_posts_def)
      from Inr have "users db' = users (run True rs)"
        and "\<forall>q \<in> set (posts db'). q \<in> set (posts (run True rs)) \<or>
               Some (p_user_id q) \<in> set (map u_id (users (run True rs)))"
        by (auto simp: insert_posts_def split: option.splits if_splits)
      then show ?thesis using snoc eq by auto
    qed
  qed
qed

section \<open>Claims about the nearby queries\<close>

text \<open>
  C1. The nearby query retains exactly the candidates whose computed distance is strictly
  less than the radius. With a radius in the query string the code keeps a candidate whose
  distance is not below it: in \<open>store_far\<close> the worker and the listing are
  \<open>6371 * (pi / 2)\<close> km from \<open>(0, 0)\<close>, and \<open>?lat=0&lng=0&radius=10\<close> returns both.
\<close>

theorem nearby_supplied_radius_keeps_distant_candidate:
  "map w_distance (get_api_workers_nearby store_far (Some 0) (Some 0) (Some ''10''))
     = [Some (6371 * (pi / 2))] \<and>
   map pr_distance (get_api_posts_nearby store_far (Some 0) (Some 0) (Some ''10''))
     = [Some (6371 * (pi / 2))] \<and>
   \<not> 6371 * (pi / 2) < (10::real)"
proof -
  have "\<not> 6371 * (pi / 2) < (10::real)" using pi_ge_two by simp
  then show ?thesis
    by (simp add: workers_nearby_store_far_supplied posts_nearby_store_far_supplied)
qed

text \<open>
  C7. The nearby result is monotone in the radius. On the code it is not: in \<open>store_far\<close>
  the query with \<open>radius=10\<close> returns the worker and the listing, and the query with no
  radius, which uses the greater radius 50, returns neither.
\<close>

theorem nearby_not_monotone_in_radius:
  "(10::real) < 50 \<and>
   bind_radius None = Num 50 \<and>
   \<not> set (get_api_workers_nearby store_far (Some 0) (Some 0) (Some ''10''))
        \<subseteq> set (get_api_workers_nearby store_far (Some 0) (Some 0) None) \<and>
   \<not> set (get_api_posts_nearby store_far (Some 0) (Some 0) (Some ''10''))
        \<subseteq> set (get_api_posts_nearby store_far (Some 0) (Some 0) None)"
  by (simp add: bind_radius_def workers_nearby_store_far_supplied workers_nearby_store_far_default
        posts_nearby_store_far_supplied posts_nearby_store_far_default)

text \<open>
  C2, as the claim states it: candidates at equal distance appear in the order of their
  ids. In \<open>store_ties\<close> the workers \<open>b\<close> and \<open>a\<close> are both at distance 0 and are returned
  with \<open>b\<close> first.
\<close>

theorem nearby_ties_not_in_id_order:
  "map u_id (get_api_workers_nearby store_ties (Some 0) (Some 0) None) = [Some ''b'', Some ''a''] \<and>
   map w_distance (get_api_workers_nearby store_ties (Some 0) (Some 0) None) = [Some 0, Some 0] \<and>
   (''a'' :: string) < ''b''"
  by (simp add: workers_nearby_store_ties)

text \<open>
  C2, amended: for every store, origin and radius, the rows of both nearby queries are in
  non-decreasing order of their computed distance, and every row has a distance. The
  statement orders by the distance alone.
\<close>

theorem nearby_sorted_by_distance:
  "sorted (map w_distance (get_api_workers_nearby db userLat userLng radius)) \<and>
   None \<notin> set (map w_distance (get_api_workers_nearby db userLat userLng radius)) \<and>
   sorted (map pr_distance (get_api_posts_nearby db userLat userLng radius)) \<and>
   None \<notin> set (map pr_distance (get_api_posts_nearby db userLat userLng radius))"
proof -
  have "sorted (map w_distance (get_api_workers_nearby db userLat userLng radius))"
    by (simp add: get_api_workers_nearby_def)
  moreover have "sorted (map pr_distance (get_api_posts_nearby db userLat userLng radius))"
    by (simp add: get_api_posts_nearby_def)
  moreover have "None \<notin> set (map w_distance (get_api_workers_nearby db userLat userLng radius))"
    by (auto simp: get_api_workers_nearby_def dest: sql_lt_True_Some)
  moreover have "None \<notin> set (map pr_distance (get_api_posts_nearby db userLat userLng radius))"
    by (auto simp: get_api_posts_nearby_def dest: sql_lt_True_Some)
  ultimately show ?thesis by blast
qed

theorem nearby_sorted_by_distance_witness:
  "sorted (map w_distance (get_api_workers_nearby store_ties (Some 0) (Some 0) None)) \<and>
   map w_distance (get_api_workers_nearby store_ties (Some 0) (Some 0) None) = [Some 0, Some 0]"
  using nearby_sorted_by_distance [of store_ties "Some 0" "Some 0" None]
  by (simp add: workers_nearby_store_ties)

text \<open>
  C9. A participant without a location never appears in the result of the workers query,
  for any origin and radius: every row returned has a latitude and a longitude, the role
  \<open>worker\<close>, and is a stored row; a stored row that lacks either coordinate is no row of
  the result.
\<close>

theorem absent_location_never_nearby:
  "(\<forall>r \<in> set (get_api_workers_nearby db userLat userLng radius).
      u_lat r \<noteq> None \<and> u_lng r \<noteq> None \<and> u_role r = ''worker'' \<and>
      user_row.truncate r \<in> set (users db)) \<and>
   (\<forall>u \<in> set (users db). u_lat u = None \<or> u_lng u = None \<longrightarrow>
      u \<notin> user_row.truncate ` set (get_api_workers_nearby db userLat userLng radius))"
proof -
  have 1: "\<forall>r \<in> set (get_api_workers_nearby db userLat userLng radius).
      u_lat r \<noteq> None \<and> u_lng r \<noteq> None \<and> u_role r = ''worker'' \<and>
      user_row.truncate r \<in> set (users db)"
  proof
    fix r assume "r \<in> set (get_api_workers_nearby db userLat userLng radius)"
    then obtain u where u: "u \<in> set (users db)" "u_role u = ''worker''"
      "sql_lt (distance_expr userLat userLng (u_lat u) (u_lng u)) (bind_radius radius) = Some True"
      and r: "r = select_worker userLat userLng u"
      unfolding set_workers_nearby by blast
    from u(3) have "distance_expr userLat userLng (u_lat u) (u_lng u) \<noteq> None"
      by (rule sql_lt_True_Some)
    from distance_expr_Some [OF this] have "u_lat u \<noteq> None \<and> u_lng u \<noteq> None" by simp
    with u r show "u_lat r \<noteq> None \<and> u_lng r \<noteq> None \<and> u_role r = ''worker'' \<and>
      user_row.truncate r \<in> set (users db)"
      by (simp add: truncate_select_worker select_worker_fields)
  qed
  have 2: "\<forall>u \<in> set (users db). u_lat u = None \<or> u_lng u = None \<longrightarrow>
      u \<notin> user_row.truncate ` set (get_api_workers_nearby db userLat userLng radius)"
  proof (intro ballI impI notI)
    fix u assume "u \<in> set (users db)" and n: "u_lat u = None \<or> u_lng u = None"
      and "u \<in> user_row.truncate ` set (get_api_workers_nearby db userLat userLng radius)"
    then obtain r where r: "r \<in> set (get_api_workers_nearby db userLat userLng radius)"
      "u = user_row.truncate r" by blast
    with 1 have "u_lat r \<noteq> None \<and> u_lng r \<noteq> None" by blast
    with r(2) n show False by (simp add: user_row.truncate_def)
  qed
  from 1 2 show ?thesis by blast
qed

theorem absent_location_never_nearby_witness:
  "\<lparr>u_id = Some ''n'', u_name = ''Ann'', u_role = ''worker'',
     u_lat = None, u_lng = None, u_last_active = 2\<rparr> \<in> set (users store_ties) \<and>
   \<lparr>u_id = Some ''n'', u_name = ''Ann'', u_role = ''worker'',
     u_lat = None, u_lng = None, u_last_active = 2\<rparr>
     \<notin> user_row.truncate ` set (get_api_workers_nearby store_ties (Some 0) (Some 0) (Some ''10'')) \<and>
   length (get_api_workers_nearby store_ties (Some 0) (Some 0) (Some ''10'')) = 2"
proof -
  let ?n = "\<lparr>u_id = Some ''n'', u_name = ''Ann'', u_role = ''worker'',
              u_lat = None, u_lng = None, u_last_active = 2\<rparr>"
  have m: "?n \<in> set (users store_ties)" by (simp add: store_ties_rows)
  have "u_lat ?n = None \<or> u_lng ?n = None" by simp
  with m absent_location_never_nearby [of store_ties "Some 0" "Some 0" "Some ''10''"]
  have "?n \<notin> user_row.truncate ` set (get_api_workers_nearby store_ties (Some 0) (Some 0) (Some ''10''))"
    by blast
  moreover have "length (get_api_workers_nearby store_ties (Some 0) (Some 0) (Some ''10'')) = 2"
    by (simp add: get_api_workers_nearby_def store_ties_rows select_worker_def bind_radius_def
          distance_expr_origin distance_expr_no_location)
  ultimately show ?thesis using m by blast
qed

text \<open>
  C10. For every matched worker the response of GET /api/workers/nearby holds the whole
  stored row (id, name, role, lat, lng, last_active) and the computed distance: every
  stored worker that passes the filter has a row carrying its six columns unchanged, every
  row returned is a stored row with its distance, and no matched row is dropped.
\<close>

theorem workers_nearby_returns_whole_row:
  "(\<forall>u \<in> set (users db).
      u_role u = ''worker'' \<and>
      sql_lt (distance_expr userLat userLng (u_lat u) (u_lng u)) (bind_radius radius) = Some True \<longrightarrow>
      (\<exists>r \<in> set (get_api_workers_nearby db userLat userLng radius).
         u_id r = u_id u \<and> u_name r = u_name u \<and> u_role r = u_role u \<and>
         u_lat r = u_lat u \<and> u_lng r = u_lng u \<and> u_last_active r = u_last_active u \<and>
         w_distance r = distance_expr userLat userLng (u_lat u) (u_lng u))) \<and>
   (\<forall>r \<in> set (get_api_workers_nearby db userLat userLng radius).
      user_row.truncate r \<in> set (users db) \<and>
      w_distance r = distance_expr userLat userLng (u_lat r) (u_lng r)) \<and>
   length (get_api_workers_nearby db userLat userLng radius) =
     length (filter (\<lambda>u. u_role u = ''worker'' \<and>
        sql_lt (distance_expr userLat userLng (u_lat u) (u_lng u)) (bind_radius radius) = Some True)
        (users db))"
proof (intro conjI ballI impI)
  fix u
  assume "u \<in> set (users db)" and
    "u_role u = ''worker'' \<and>
     sql_lt (distance_expr userLat userLng (u_lat u) (u_lng u)) (bind_radius radius) = Some True"
  then have "select_worker userLat userLng u \<in> set (get_api_workers_nearby db userLat userLng radius)"
    unfolding set_workers_nearby by blast
  then show "\<exists>r \<in> set (get_api_workers_nearby db userLat userLng radius).
         u_id r = u_id u \<and> u_name r = u_name u \<and> u_role r = u_role u \<and>
         u_lat r = u_lat u \<and> u_lng r = u_lng u \<and> u_last_active r = u_last_active u \<and>
         w_distance r = distance_expr userLat userLng (u_lat u) (u_lng u)"
    by (rule bexI [rotated]) (simp add: select_worker_fields)
next
  fix r assume "r \<in> set (get_api_workers_nearby db userLat userLng radius)"
  then obtain u where "u \<in> set (users db)" "r = select_worker userLat userLng u"
    unfolding set_workers_nearby by blast
  then show "user_row.truncate r \<in> set (users db)"
    by (simp add: truncate_select_worker)
next
  fix r assume "r \<in> set (get_api_workers_nearby db userLat userLng radius)"
  then obtain u where "u \<in> set (users db)" "r = select_worker userLat userLng u"
    unfolding set_workers_nearby by blast
  then show "w_distance r = distance_expr userLat userLng (u_lat r) (u_lng r)"
    by (simp add: select_worker_fields)
next
  show "length (get_api_workers_nearby db userLat userLng radius) =
     length (filter (\<lambda>u. u_role u = ''worker'' \<and>
        sql_lt (distance_expr userLat userLng (u_lat u) (u_lng u)) (bind_radius radius) = Some True)
        (users db))"
    by (simp add: get_api_workers_nearby_def filter_map comp_def select_worker_fields)
qed

theorem workers_nearby_returns_whole_row_witness:
  "\<lparr>u_id = Some ''f'', u_name = ''Ann'', u_role = ''worker'',
     u_lat = Some 0, u_lng = Some 90, u_last_active = 0\<rparr> \<in> set (users store_far) \<and>
   (\<exists>r \<in> set (get_api_workers_nearby store_far (Some 0) (Some 0) (Some ''10'')).
      u_id r = Some ''f'' \<and> u_name r = ''Ann'' \<and> u_role r = ''worker'' \<and>
      u_lat r = Some 0 \<and> u_lng r = Some 90 \<and> u_last_active r = 0 \<and>
      w_distance r = Some (6371 * (pi / 2)))"
proof -
  let ?f = "\<lparr>u_id = Some ''f'', u_name = ''Ann'', u_role = ''worker'',
              u_lat = Some 0, u_lng = Some 90, u_last_active = 0\<rparr>"
  have m: "?f \<in> set (users store_far)" by (simp add: store_far_rows)
  have "u_role ?f = ''worker'' \<and>
    sql_lt (distance_expr (Some 0) (Some 0) (u_lat ?f) (u_lng ?f)) (bind_radius (Some ''10'')) = Some True"
    by (simp add: distance_expr_quarter bind_radius_def)
  with m workers_nearby_returns_whole_row [of store_far "Some 0" "Some 0" "Some ''10''"]
  have "\<exists>r \<in> set (get_api_workers_nearby store_far (Some 0) (Some 0) (Some ''10'')).
         u_id r = u_id ?f \<and> u_name r = u_name ?f \<and> u_role r = u_role ?f \<and>
         u_lat r = u_lat ?f \<and> u_lng r = u_lng ?f \<and> u_last_active r = u_last_active ?f \<and>
         w_distance r = distance_expr (Some 0) (Some 0) (u_lat ?f) (u_lng ?f)"
    by blast
  then show ?thesis using m by (simp add: distance_expr_quarter)
qed

text \<open>
  C3, as the claim states it: a listing whose owner does not resolve is still returned,
  with no owner name. \<open>store_dangling\<close> holds one listing, at distance 0 from \<open>(0, 0)\<close>,
  and no participant; the query returns no row.
\<close>

theorem dangling_listing_not_returned:
  "length (posts store_dangling) = 1 \<and>
   users store_dangling = [] \<and>
   map (\<lambda>p. distance_expr (Some 0) (Some 0) (Some (p_lat p)) (Some (p_lng p))) (posts store_dangling)
     = [Some 0] \<and>
   get_api_posts_nearby store_dangling (Some 0) (Some 0) None = [] \<and>
   get_api_posts_nearby store_dangling (Some 0) (Some 0) (Some ''10'') = []"
  by (simp add: store_dangling_def distance_expr_origin posts_join_users_def
        get_api_posts_nearby_def)

text \<open>
  C3, amended: for every store state GET /api/posts/nearby answers from the inner join of
  listings and participants. Every pair of a stored listing and a stored participant
  whose id is the listing's \<open>user_id\<close>, and whose distance passes the filter, has a row
  with all the listing's columns, that participant's name and the distance; every row
  returned is such a pair; there are as many rows as pairs; and a listing whose
  \<open>user_id\<close> is the id of no participant is in no row of the result. The query has no
  failing case.
\<close>

theorem listings_query_is_inner_join:
  "(\<forall>p \<in> set (posts db). \<forall>u \<in> set (users db).
      u_id u = Some (p_user_id p) \<and>
      sql_lt (distance_expr userLat userLng (Some (p_lat p)) (Some (p_lng p))) (bind_radius radius)
        = Some True \<longrightarrow>
      (\<exists>r \<in> set (get_api_posts_nearby db userLat userLng radius).
         post_row.truncate r = p \<and> user_name r = u_name u \<and>
         pr_distance r = distance_expr userLat userLng (Some (p_lat p)) (Some (p_lng p)))) \<and>
   (\<forall>r \<in> set (get_api_posts_nearby db userLat userLng radius).
      \<exists>p \<in> set (posts db). \<exists>u \<in> set (users db).
        u_id u = Some (p_user_id p) \<and> post_row.truncate r = p \<and> user_name r = u_name u \<and>
        pr_distance r = distance_expr userLat userLng (Some (p_lat p)) (Some (p_lng p)) \<and>
        sql_lt (pr_distance r) (bind_radius radius) = Some True) \<and>
   length (get_api_posts_nearby db userLat userLng radius) =
     length (filter (\<lambda>pu. sql_lt (distance_expr userLat userLng (Some (p_lat (fst pu)))
                                   (Some (p_lng (fst pu)))) (bind_radius radius) = Some True)
               (posts_join_users db)) \<and>
   set (posts_join_users db) =
     {(p, u). p \<in> set (posts db) \<and> u \<in> set (users db) \<and> u_id u = Some (p_user_id p)} \<and>
   (\<forall>p \<in> set (posts db). (\<forall>u \<in> set (users db). u_id u \<noteq> Some (p_user_id p)) \<longrightarrow>
      p \<notin> post_row.truncate ` set (get_api_posts_nearby db userLat userLng radius))"
proof -
  have complete: "\<forall>p \<in> set (posts db). \<forall>u \<in> set (users db).
      u_id u = Some (p_user_id p) \<and>
      sql_lt (distance_expr userLat userLng (Some (p_lat p)) (Some (p_lng p))) (bind_radius radius)
        = Some True \<longrightarrow>
      (\<exists>r \<in> set (get_api_posts_nearby db userLat userLng radius).
         post_row.truncate r = p \<and> user_name r = u_name u \<and>
         pr_distance r = distance_expr userLat userLng (Some (p_lat p)) (Some (p_lng p)))"
  proof (intro ballI impI)
    fix p u
    assume "p \<in> set (posts db)" "u \<in> set (users db)" and
      "u_id u = Some (p_user_id p) \<and>
       sql_lt (distance_expr userLat userLng (Some (p_lat p)) (Some (p_lng p))) (bind_radius radius)
         = Some True"
    then have "select_post userLat userLng (p, u) \<in> set (get_api_posts_nearby db userLat userLng radius)"
      unfolding set_posts_nearby by blast
    then show "\<exists>r \<in> set (get_api_posts_nearby db userLat userLng radius).
         post_row.truncate r = p \<and> user_name r = u_name u \<and>
         pr_distance r = distance_expr userLat userLng (Some (p_lat p)) (Some (p_lng p))"
      by (rule bexI [rotated]) (simp add: truncate_select_post select_post_fields)
  qed
  have rows: "\<forall>r \<in> set (get_api_posts_nearby db userLat userLng radius).
      \<exists>p \<in> set (posts db). \<exists>u \<in> set (users db).
        u_id u = Some (p_user_id p) \<and> post_row.truncate r = p \<and> user_name r = u_name u \<and>
        pr_distance r = distance_expr userLat userLng (Some (p_lat p)) (Some (p_lng p)) \<and>
        sql_lt (pr_distance r) (bind_radius radius) = Some True"
  proof
    fix r assume "r \<in> set (get_api_posts_nearby db userLat userLng radius)"
    then obtain p u where pu: "p \<in> set (posts db)" "u \<in> set (users db)"
      "u_id u = Some (p_user_id p)"
      "sql_lt (distance_expr userLat userLng (Some (p_lat p)) (Some (p_lng p))) (bind_radius radius)
         = Some True"
      and r: "r = select_post userLat userLng (p, u)"
      unfolding set_posts_nearby by blast
    from r pu(4) have "post_row.truncate r = p \<and> user_name r = u_name u \<and>
        pr_distance r = distance_expr userLat userLng (Some (p_lat p)) (Some (p_lng p)) \<and>
        sql_lt (pr_distance r) (bind_radius radius) = Some True"
      by (simp add: truncate_select_post select_post_fields)
    with pu show "\<exists>p \<in> set (posts db). \<exists>u \<in> set (users db).
        u_id u = Some (p_user_id p) \<and> post_row.truncate r = p \<and> user_name r = u_name u \<and>
        pr_distance r = distance_expr userLat userLng (Some (p_lat p)) (Some (p_lng p)) \<and>
        sql_lt (pr_distance r) (bind_radius radius) = Some True"
      by blast
  qed
  have len: "length (get_api_posts_nearby db userLat userLng radius) =
     length (filter (\<lambda>pu. sql_lt (distance_expr userLat userLng (Some (p_lat (fst pu)))
                                   (Some (p_lng (fst pu)))) (bind_radius radius) = Some True)
               (posts_join_users db))"
    by (simp add: get_api_posts_nearby_def filter_map comp_def select_post_def split_beta)
  have dangling: "\<forall>p \<in> set (posts db). (\<forall>u \<in> set (users db). u_id u \<noteq> Some (p_user_id p)) \<longrightarrow>
      p \<notin> post_row.truncate ` set (get_api_posts_nearby db userLat userLng radius)"
  proof (intro ballI impI notI)
    fix p
    assume no: "\<forall>u \<in> set (users db). u_id u \<noteq> Some (p_user_id p)"
      and "p \<in> post_row.truncate ` set (get_api_posts_nearby db userLat userLng radius)"
    then obtain r where "r \<in> set (get_api_posts_nearby db userLat userLng radius)"
      "p = post_row.truncate r" by blast
    with rows obtain u where "u \<in> set (users db)" "u_id u = Some (p_user_id p)" by blast
    with no show False by blast
  qed
  from complete rows len dangling show ?thesis by (simp add: set_posts_join_users)
qed

theorem listings_query_is_inner_join_witness:
  "(\<exists>r \<in> set (get_api_posts_nearby store_far (Some 0) (Some 0) (Some ''10'')).
      post_row.truncate r = hd (posts store_far) \<and> user_name r = ''Ann'' \<and>
      pr_distance r = Some (6371 * (pi / 2))) \<and>
   hd (posts store_dangling) \<in> set (posts store_dangling) \<and>
   hd (posts store_dangling) \<notin>
     post_row.truncate ` set (get_api_posts_nearby store_dangling (Some 0) (Some 0) (Some ''10''))"
proof -
  let ?p = "hd (posts store_far)" and ?u = "hd (users store_far)"
  have pu: "?p \<in> set (posts store_far)" "?u \<in> set (users store_far)"
    by (simp_all add: store_far_rows)
  have "u_id ?u = Some (p_user_id ?p) \<and>
      sql_lt (distance_expr (Some 0) (Some 0) (Some (p_lat ?p)) (Some (p_lng ?p)))
        (bind_radius (Some ''10'')) = Some True"
    by (simp add: store_far_rows distance_expr_quarter bind_radius_def)
  with pu listings_query_is_inner_join [of store_far "Some 0" "Some 0" "Some ''10''"]
  have "\<exists>r \<in> set (get_api_posts_nearby store_far (Some 0) (Some 0) (Some ''10'')).
         post_row.truncate r = ?p \<and> user_name r = u_name ?u \<and>
         pr_distance r = distance_expr (Some 0) (Some 0) (Some (p_lat ?p)) (Some (p_lng ?p))"
    by blast
  then have 1: "\<exists>r \<in> set (get_api_posts_nearby store_far (Some 0) (Some 0) (Some ''10'')).
      post_row.truncate r = ?p \<and> user_name r = ''Ann'' \<and>
      pr_distance r = Some (6371 * (pi / 2))"
    by (simp add: store_far_rows distance_expr_quarter)
  have m: "hd (posts store_dangling) \<in> set (posts store_dangling)"
    by (simp add: store_dangling_def)
  have "\<forall>u \<in> set (users store_dangling). u_id u \<noteq> Some (p_user_id (hd (posts store_dangling)))"
    by (simp add: store_dangling_def)
  with m listings_query_is_inner_join [of store_dangling "Some 0" "Some 0" "Some ''10''"]
  have "hd (posts store_dangling) \<notin>
     post_row.truncate ` set (get_api_posts_nearby store_dangling (Some 0) (Some 0) (Some ''10''))"
    by blast
  with 1 m show ?thesis by blast
qed

section \<open>Claims about the write handlers\<close>

text \<open>
  C4, as the claim states it: the upsert fails when the name is empty, or the latitude is
  outside \<open>[-90, 90]\<close>, or the longitude is outside \<open>[-180, 180]\<close>. A body with the empty
  name, latitude 200 and longitude 500 is stored and answered with success.
\<close>

theorem upsert_accepts_empty_name_and_any_coordinates:
  "post_api_users empty_store 7
     \<lparr>req_id = Some ''u'', req_name = Some [], req_role = Some ''worker'',
      req_lat = Some 200, req_lng = Some 500\<rparr>
   = (Success,
      \<lparr>users = [\<lparr>u_id = Some ''u'', u_name = [], u_role = ''worker'',
                  u_lat = Some 200, u_lng = Some 500, u_last_active = 7\<rparr>],
       posts = []\<rparr>)"
  by (simp add: post_api_users_def insert_or_replace_users_def empty_store_def)

text \<open>
  C4, amended: POST /api/users fails, with the store left unchanged, exactly when the
  name is absent or the role is absent or not one of \<open>worker\<close> and \<open>employer\<close> (the
  \<open>NOT NULL\<close> and \<open>CHECK\<close> constraints of the table); on every other body it succeeds,
  whatever the name's length and the coordinates.
\<close>

theorem upsert_fails_exactly_on_table_constraints:
  "(fst (post_api_users db now r) = Success \<longleftrightarrow>
      req_name r \<noteq> None \<and> (req_role r = Some ''worker'' \<or> req_role r = Some ''employer'')) \<and>
   (fst (post_api_users db now r) \<noteq> Success \<longrightarrow> snd (post_api_users db now r) = db) \<and>
   (req_name r = None \<or> req_role r = None \<longrightarrow>
      fst (post_api_users db now r) = Thrown CONSTRAINT_NOTNULL) \<and>
   (req_name r \<noteq> None \<and> req_role r \<noteq> None \<and>
    req_role r \<noteq> Some ''worker'' \<and> req_role r \<noteq> Some ''employer'' \<longrightarrow>
      fst (post_api_users db now r) = Thrown CONSTRAINT_CHECK)"
  by (cases "req_name r"; cases "req_role r")
     (simp_all add: post_api_users_def insert_or_replace_users_def)

theorem upsert_fails_exactly_on_table_constraints_witness:
  "post_api_users store_far 3
     \<lparr>req_id = Some ''f'', req_name = Some ''Eve'', req_role = Some ''admin'',
      req_lat = Some 1, req_lng = Some 1\<rparr> = (Thrown CONSTRAINT_CHECK, store_far) \<and>
   fst (post_api_users store_far 3
     \<lparr>req_id = Some ''f'', req_name = Some ''Eve'', req_role = Some ''employer'',
      req_lat = Some 1, req_lng = Some 1\<rparr>) = Success"
proof -
  let ?bad = "\<lparr>req_id = Some ''f'', req_name = Some ''Eve'', req_role = Some ''admin'',
               req_lat = Some 1, req_lng = Some 1\<rparr>"
  let ?good = "\<lparr>req_id = Some ''f'', req_name = Some ''Eve'', req_role = Some ''employer'',
               req_lat = Some 1, req_lng = Some 1\<rparr>"
  have "fst (post_api_users store_far 3 ?bad) = Thrown CONSTRAINT_CHECK \<and>
        snd (post_api_users store_far 3 ?bad) = store_far"
    using upsert_fails_exactly_on_table_constraints [of store_far 3 ?bad] by simp
  moreover have "fst (post_api_users store_far 3 ?good) = Success"
    using upsert_fails_exactly_on_table_constraints [of store_far 3 ?good] by simp
  ultimately show ?thesis by (simp add: prod_eq_iff)
qed




text \<open>
  C6, as the claim states it: upserting twice with the same id and different coordinates
  leaves an advanced \<open>lastActive\<close>. \<open>CURRENT_TIMESTAMP\<close> is read in whole seconds: two
  upserts of \<open>f\<close> served in second 5 both succeed, the second replaces the coordinates,
  and \<open>last_active\<close> is 5 after the first and 5 after the second.
\<close>

theorem upsert_twice_same_second_timestamp_unchanged:
  "fst (post_api_users store_far 5 (worker_body ''f'' (Some 1) (Some 2))) = Success \<and>
   filter (\<lambda>u. u_id u = Some ''f'')
     (users (snd (post_api_users store_far 5 (worker_body ''f'' (Some 1) (Some 2)))))
     = [\<lparr>u_id = Some ''f'', u_name = ''Ann'', u_role = ''worker'',
         u_lat = Some 1, u_lng = Some 2, u_last_active = 5\<rparr>] \<and>
   fst (post_api_users (snd (post_api_users store_far 5 (worker_body ''f'' (Some 1) (Some 2)))) 5
          (worker_body ''f'' (Some 3) (Some 4))) = Success \<and>
   filter (\<lambda>u. u_id u = Some ''f'')
     (users (snd (post_api_users (snd (post_api_users store_far 5 (worker_body ''f'' (Some 1) (Some 2)))) 5
          (worker_body ''f'' (Some 3) (Some 4)))))
     = [\<lparr>u_id = Some ''f'', u_name = ''Ann'', u_role = ''worker'',
         u_lat = Some 3, u_lng = Some 4, u_last_active = 5\<rparr>]"
  by (simp add: post_api_users_def insert_or_replace_users_def worker_body_def store_far_rows)

text \<open>
  C6, amended: the store never holds two participant rows with the same id: after any run
  of requests, from the empty database, each id is the id of at most one row. Every
  successful upsert inserts a row or replaces the row with that id, and leaves every other
  participant and every listing as it was. Upserting twice with the same id leaves exactly
  one row with that id, carrying the name, role and coordinates of the second call, and
  as \<open>last_active\<close> the clock reading of the second call: it has advanced over the first
  call's exactly when the clock, read in whole seconds, advanced between the two calls.
\<close>

theorem participant_ids_unique_upsert_replaces:
  "(\<forall>i. length (filter (\<lambda>u. u_id u = Some i) (users (run fk rs))) \<le> 1) \<and>
   (post_api_users db t1 r1 = (Success, db1) \<and> post_api_users db1 t2 r2 = (Success, db2) \<and>
    req_id r1 = Some i \<and> req_id r2 = Some i \<longrightarrow>
      (\<exists>n1 ro1 n2 ro2.
         req_name r1 = Some n1 \<and> req_role r1 = Some ro1 \<and>
         req_name r2 = Some n2 \<and> req_role r2 = Some ro2 \<and>
         filter (\<lambda>u. u_id u = Some i) (users db1) =
           [\<lparr>u_id = Some i, u_name = n1, u_role = ro1,
             u_lat = req_lat r1, u_lng = req_lng r1, u_last_active = t1\<rparr>] \<and>
         filter (\<lambda>u. u_id u = Some i) (users db2) =
           [\<lparr>u_id = Some i, u_name = n2, u_role = ro2,
             u_lat = req_lat r2, u_lng = req_lng r2, u_last_active = t2\<rparr>]) \<and>
      filter (\<lambda>u. u_id u \<noteq> Some i) (users db1) = filter (\<lambda>u. u_id u \<noteq> Some i) (users db) \<and>
      filter (\<lambda>u. u_id u \<noteq> Some i) (users db2) = filter (\<lambda>u. u_id u \<noteq> Some i) (users db) \<and>
      posts db1 = posts db \<and> posts db2 = posts db \<and>
      (\<forall>u1 \<in> set (users db1). \<forall>u2 \<in> set (users db2).
         u_id u1 = Some i \<and> u_id u2 = Some i \<longrightarrow>
           (u_last_active u1 < u_last_active u2 \<longleftrightarrow> t1 < t2) \<and>
           (u_last_active u1 = u_last_active u2 \<longleftrightarrow> t1 = t2)))"
proof (intro conjI allI impI)
  fix j show "length (filter (\<lambda>u. u_id u = Some j) (users (run fk rs))) \<le> 1"
    by (rule run_ids_unique)
next
  assume a: "post_api_users db t1 r1 = (Success, db1) \<and> post_api_users db1 t2 r2 = (Success, db2) \<and>
    req_id r1 = Some i \<and> req_id r2 = Some i"
  then have s1: "insert_or_replace_users db t1 r1 = Inr db1"
    and s2: "insert_or_replace_users db1 t2 r2 = Inr db2"
    and ids: "req_id r1 = Some i" "req_id r2 = Some i"
    by (simp_all add: post_api_users_Success)
  from insert_or_replace_users_Inr [OF s1] a obtain n1 ro1 where
    1: "req_name r1 = Some n1" "req_role r1 = Some ro1"
       "users db1 = filter (\<lambda>u. u_id u \<noteq> Some i) (users db) @
          [\<lparr>u_id = Some i, u_name = n1, u_role = ro1,
            u_lat = req_lat r1, u_lng = req_lng r1, u_last_active = t1\<rparr>]"
    by auto
  from insert_or_replace_users_Inr [OF s2] a obtain n2 ro2 where
    2: "req_name r2 = Some n2" "req_role r2 = Some ro2"
       "users db2 = filter (\<lambda>u. u_id u \<noteq> Some i) (users db1) @
          [\<lparr>u_id = Some i, u_name = n2, u_role = ro2,
            u_lat = req_lat r2, u_lng = req_lng r2, u_last_active = t2\<rparr>]"
    by auto
  have f1: "filter (\<lambda>u. u_id u = Some i) (users db1) =
           [\<lparr>u_id = Some i, u_name = n1, u_role = ro1,
             u_lat = req_lat r1, u_lng = req_lng r1, u_last_active = t1\<rparr>]"
    by (simp add: 1(3) filter_id_after_replace)
  have f2: "filter (\<lambda>u. u_id u = Some i) (users db2) =
           [\<lparr>u_id = Some i, u_name = n2, u_role = ro2,
             u_lat = req_lat r2, u_lng = req_lng r2, u_last_active = t2\<rparr>]"
    by (simp add: 2(3) filter_id_after_replace)
  from f1 f2 show "\<exists>n1 ro1 n2 ro2.
         req_name r1 = Some n1 \<and> req_role r1 = Some ro1 \<and>
         req_name r2 = Some n2 \<and> req_role r2 = Some ro2 \<and>
         filter (\<lambda>u. u_id u = Some i) (users db1) =
           [\<lparr>u_id = Some i, u_name = n1, u_role = ro1,
             u_lat = req_lat r1, u_lng = req_lng r1, u_last_active = t1\<rparr>] \<and>
         filter (\<lambda>u. u_id u = Some i) (users db2) =
           [\<lparr>u_id = Some i, u_name = n2, u_role = ro2,
             u_lat = req_lat r2, u_lng = req_lng r2, u_last_active = t2\<rparr>]"
    using 1(1,2) 2(1,2) by blast
  show fr1: "filter (\<lambda>u. u_id u \<noteq> Some i) (users db1) = filter (\<lambda>u. u_id u \<noteq> Some i) (users db)"
    by (rule upsert_frame(1) [OF s1 ids(1)])
  show "filter (\<lambda>u. u_id u \<noteq> Some i) (users db2) = filter (\<lambda>u. u_id u \<noteq> Some i) (users db)"
    using upsert_frame(1) [OF s2 ids(2)] fr1 by simp
  show p1: "posts db1 = posts db" by (rule upsert_frame(2) [OF s1 ids(1)])
  show "posts db2 = posts db" using upsert_frame(2) [OF s2 ids(2)] p1 by simp
  show "\<forall>u1 \<in> set (users db1). \<forall>u2 \<in> set (users db2).
         u_id u1 = Some i \<and> u_id u2 = Some i \<longrightarrow>
           (u_last_active u1 < u_last_active u2 \<longleftrightarrow> t1 < t2) \<and>
           (u_last_active u1 = u_last_active u2 \<longleftrightarrow> t1 = t2)"
  proof (intro ballI impI)
    fix u1 u2
    assume m: "u1 \<in> set (users db1)" "u2 \<in> set (users db2)"
      and e: "u_id u1 = Some i \<and> u_id u2 = Some i"
    from m(1) e have "u1 \<in> set (filter (\<lambda>u. u_id u = Some i) (users db1))" by simp
    then have l1: "u_last_active u1 = t1" unfolding f1 by simp
    from m(2) e have "u2 \<in> set (filter (\<lambda>u. u_id u = Some i) (users db2))" by simp
    then have l2: "u_last_active u2 = t2" unfolding f2 by simp
    from l1 l2 show "(u_last_active u1 < u_last_active u2 \<longleftrightarrow> t1 < t2) \<and>
           (u_last_active u1 = u_last_active u2 \<longleftrightarrow> t1 = t2)" by simp
  qed
qed

theorem participant_ids_unique_upsert_replaces_witness:
  "post_api_users store_far 5 (worker_body ''f'' (Some 1) (Some 2))
     = (Success, run True [POST_users 0 (worker_body ''f'' (Some 0) (Some 90)),
                           POST_posts 1 (listing_body ''p'' ''f'' 0 90),
                           POST_users 5 (worker_body ''f'' (Some 1) (Some 2))]) \<and>
   filter (\<lambda>u. u_id u = Some ''f'')
     (users (run True [POST_users 0 (worker_body ''f'' (Some 0) (Some 90)),
                       POST_posts 1 (listing_body ''p'' ''f'' 0 90),
                       POST_users 5 (worker_body ''f'' (Some 1) (Some 2)),
                       POST_users 9 (worker_body ''f'' (Some 3) (Some 4))]))
     = [\<lparr>u_id = Some ''f'', u_name = ''Ann'', u_role = ''worker'',
         u_lat = Some 3, u_lng = Some 4, u_last_active = 9\<rparr>] \<and>
   posts (run True [POST_users 0 (worker_body ''f'' (Some 0) (Some 90)),
                    POST_posts 1 (listing_body ''p'' ''f'' 0 90),
                    POST_users 5 (worker_body ''f'' (Some 1) (Some 2)),
                    POST_users 9 (worker_body ''f'' (Some 3) (Some 4))]) = posts store_far"
proof -
  let ?r1 = "worker_body ''f'' (Some 1) (Some 2)"
  let ?r2 = "worker_body ''f'' (Some 3) (Some 4)"
  let ?pre = "[POST_users 0 (worker_body ''f'' (Some 0) (Some 90)),
               POST_posts 1 (listing_body ''p'' ''f'' 0 90)]"
  let ?db1 = "run True (?pre @ [POST_users 5 ?r1])"
  let ?db2 = "run True ((?pre @ [POST_users 5 ?r1]) @ [POST_users 9 ?r2])"
  have far: "store_far = run True ?pre" by (simp add: store_far_def)
  have ok: "\<And>db t la lo. fst (post_api_users db t (worker_body ''f'' la lo)) = Success"
    by (simp add: post_api_users_def insert_or_replace_users_def worker_body_def)
  have s1: "post_api_users store_far 5 ?r1 = (Success, ?db1)"
    unfolding run_snoc far using ok [of "run True ?pre" 5] by (simp add: prod_eq_iff)
  have s2: "post_api_users ?db1 9 ?r2 = (Success, ?db2)"
    unfolding run_snoc [of True "?pre @ [POST_users 5 ?r1]"] using ok [of ?db1 9]
    by (simp add: prod_eq_iff)
  have ids: "req_id ?r1 = Some ''f''" "req_id ?r2 = Some ''f''"
    by (simp_all add: worker_body_def)
  from participant_ids_unique_upsert_replaces [of True "[]" store_far 5 ?r1 ?db1 9 ?r2 ?db2 "''f''"]
    s1 s2 ids
  have c: "(\<exists>n2 ro2. req_name ?r2 = Some n2 \<and> req_role ?r2 = Some ro2 \<and>
      filter (\<lambda>u. u_id u = Some ''f'') (users ?db2) =
       [\<lparr>u_id = Some ''f'', u_name = n2, u_role = ro2,
         u_lat = req_lat ?r2, u_lng = req_lng ?r2, u_last_active = 9\<rparr>])"
    and p: "posts ?db2 = posts store_far"
    by blast+
  from c have "filter (\<lambda>u. u_id u = Some ''f'') (users ?db2) =
       [\<lparr>u_id = Some ''f'', u_name = ''Ann'', u_role = ''worker'',
         u_lat = Some 3, u_lng = Some 4, u_last_active = 9\<rparr>]"
    by (auto simp: worker_body_def)
  with s1 p show ?thesis by simp
qed

end
